theory Spec2Isabelle
  imports Main
begin

section \<open>The toolkit list box\<close>

text \<open>
  Every widget of \<^verbatim>\<open>toolbox.py\<close> keeps its contents in a Tk \<^verbatim>\<open>Listbox\<close>. The list
  box is modelled as the sequence of its rows, each row being the element shown and
  whether the row is highlighted. Only the operations the program calls are modelled:
  \<^verbatim>\<open>insert(index, element)\<close> puts the element before the row at \<^verbatim>\<open>index\<close> (at the end,
  when the index is the size or more), \<^verbatim>\<open>delete(index)\<close> drops one row (none, when the
  index is out of range), \<^verbatim>\<open>delete(0, "end")\<close> drops all rows, \<^verbatim>\<open>get(0, last="end")\<close>
  gives all elements, \<^verbatim>\<open>get(index)\<close> gives one, \<^verbatim>\<open>size()\<close> the number of rows and
  \<^verbatim>\<open>curselection()\<close> the indices of the highlighted rows, ascending.
\<close>

type_synonym 'a listbox = "('a \<times> bool) list"

definition listbox_size :: "'a listbox \<Rightarrow> nat" where
  "listbox_size lb = length lb"

definition listbox_get_all :: "'a listbox \<Rightarrow> 'a list" where
  "listbox_get_all lb = map fst lb"

definition listbox_get :: "string listbox \<Rightarrow> nat \<Rightarrow> string" where
  "listbox_get lb i = (if i < length lb then fst (lb ! i) else [])"

definition listbox_insert :: "'a listbox \<Rightarrow> nat \<Rightarrow> 'a \<Rightarrow> 'a listbox" where
  "listbox_insert lb i v = take i lb @ (v, False) # drop i lb"

definition listbox_delete :: "'a listbox \<Rightarrow> nat \<Rightarrow> 'a listbox" where
  "listbox_delete lb i = take i lb @ drop (Suc i) lb"

definition listbox_delete_all :: "'a listbox \<Rightarrow> 'a listbox" where
  "listbox_delete_all lb = []"

definition listbox_curselection :: "'a listbox \<Rightarrow> nat list" where
  "listbox_curselection lb = [i \<leftarrow> [0..<length lb]. snd (lb ! i)]"

section \<open>Strings\<close>

text \<open>
  \<^verbatim>\<open>str.lower()\<close> on the ASCII letters, and the substring test \<^verbatim>\<open>a in b\<close> of two
  strings. Characters outside \<^verbatim>\<open>A\<close>..\<^verbatim>\<open>Z\<close> are left as they are.
\<close>

definition lower_char :: "char \<Rightarrow> char" where
  "lower_char c =
     (if 65 \<le> (of_char c :: nat) \<and> (of_char c :: nat) \<le> 90
      then char_of (of_char c + (32 :: nat)) else c)"

definition lower :: "string \<Rightarrow> string" where
  "lower s = map lower_char s"

fun startswith :: "'a list \<Rightarrow> 'a list \<Rightarrow> bool" where
  "startswith [] ys = True"
| "startswith (x # xs) [] = False"
| "startswith (x # xs) (y # ys) = (x = y \<and> startswith xs ys)"

fun str_in :: "'a list \<Rightarrow> 'a list \<Rightarrow> bool" where
  "str_in sub [] = (sub = [])"
| "str_in sub (y # ys) = (startswith sub (y # ys) \<or> str_in sub ys)"

section \<open>The accumulated selection: \<^verbatim>\<open>SelectedWindow\<close>\<close>

text \<open>
  The only state of a \<^verbatim>\<open>SelectedWindow\<close> is its list box. \<^verbatim>\<open>add\<close> reads the displayed
  elements once, before its loop, and appends every element of \<^verbatim>\<open>varlist\<close> that is not
  among them. \<^verbatim>\<open>remove\<close> sorts the highlighted indices in descending order and deletes
  the rows one by one.
\<close>

definition SelectedWindow_add :: "'a listbox \<Rightarrow> 'a list \<Rightarrow> 'a listbox" where
  "SelectedWindow_add lb varlist =
     (let allvars = listbox_get_all lb
      in fold (\<lambda>var b. if var \<notin> set allvars then listbox_insert b (listbox_size b) var else b)
           varlist lb)"

definition remove_index :: "'a listbox \<Rightarrow> nat list" where
  "remove_index lb = rev (sort (listbox_curselection lb))"

definition SelectedWindow_remove :: "'a listbox \<Rightarrow> 'a listbox" where
  "SelectedWindow_remove lb = fold (\<lambda>i b. listbox_delete b i) (remove_index lb) lb"

definition SelectedWindow_get_displayed :: "'a listbox \<Rightarrow> 'a list" where
  "SelectedWindow_get_displayed lb = listbox_get_all lb"

section \<open>The catalog of conditions\<close>

text \<open>
  \<^verbatim>\<open>toolbox.py\<close> imports its conditions from \<^verbatim>\<open>datatools\<close>: a condition object with the
  attributes \<^verbatim>\<open>name\<close> and \<^verbatim>\<open>array\<close>, and the globals \<^verbatim>\<open>condition_list\<close>,
  \<^verbatim>\<open>condition_dict\<close> and \<^verbatim>\<open>defaultCondition\<close>. The globals are passed to the model as
  one catalog value; nothing is assumed about how the three relate.
\<close>

record Condition =
  name :: string
  array :: "string list"

record Catalog =
  condition_list :: "Condition list"
  condition_dict :: "string \<rightharpoonup> Condition"
  defaultCondition :: Condition

datatype py_error = KeyError | ParserError

section \<open>The item list: \<^verbatim>\<open>VarWindow\<close>\<close>

record VarWindow =
  condition :: Condition
  listbox :: "string listbox"

definition VarWindow_build_box :: "VarWindow \<Rightarrow> Condition \<Rightarrow> VarWindow" where
  "VarWindow_build_box self c =
     (let varlist = array c
      in \<lparr>condition = c,
          listbox = fold (\<lambda>i b. listbox_insert b i (varlist ! i)) [0..<length varlist]
                      (listbox_delete_all (listbox self))\<rparr>)"

definition VarWindow_filter :: "VarWindow \<Rightarrow> string \<Rightarrow> VarWindow" where
  "VarWindow_filter self string =
     (let varlist = array (condition self)
      in self\<lparr>listbox :=
            fold (\<lambda>var b. if str_in (lower string) (lower var)
                           then listbox_insert b (listbox_size b) var else b)
              varlist (listbox_delete_all (listbox self))\<rparr>)"

definition VarWindow_get_selected :: "VarWindow \<Rightarrow> string list" where
  "VarWindow_get_selected self =
     map (listbox_get (listbox self)) (listbox_curselection (listbox self))"

text \<open>
  \<^verbatim>\<open>VarWindow.__init__\<close> creates an empty list box and calls \<^verbatim>\<open>build_box\<close> with the
  default condition, which is what sets the attribute \<^verbatim>\<open>condition\<close>.
\<close>

definition VarWindow_init :: "Catalog \<Rightarrow> VarWindow" where
  "VarWindow_init cat =
     VarWindow_build_box \<lparr>condition = defaultCondition cat, listbox = []\<rparr> (defaultCondition cat)"

section \<open>The other widgets\<close>

text \<open>
  The condition picker holds the displayed name and its single callback slot, which is
  empty or holds the panel's \<^verbatim>\<open>_condition_trace\<close>.
\<close>

datatype tracefunc = Condition_trace

record ConditionSelect =
  stringvar :: string
  tracefunc :: "tracefunc option"

definition ConditionSelect_get_condition :: "Catalog \<Rightarrow> ConditionSelect \<Rightarrow> py_error + Condition" where
  "ConditionSelect_get_condition cat self =
     (case condition_dict cat (stringvar self) of None \<Rightarrow> Inl KeyError | Some c \<Rightarrow> Inr c)"

definition ConditionSelect_set_tracefunc :: "ConditionSelect \<Rightarrow> tracefunc \<Rightarrow> ConditionSelect" where
  "ConditionSelect_set_tracefunc self f = self\<lparr>tracefunc := Some f\<rparr>"

definition ConditionSelect_init :: "Catalog \<Rightarrow> ConditionSelect" where
  "ConditionSelect_init cat = \<lparr>stringvar = name (defaultCondition cat), tracefunc = None\<rparr>"

record DateEntry =
  from_var :: string
  to_var :: string

text \<open>
  \<^verbatim>\<open>pd.to_datetime\<close> belongs to the pandas library. Its parser is a parameter of the
  model: a function that gives the date a text stands for, or nothing when the text is
  not a date. The argument \<^verbatim>\<open>errors\<close> decides what the call does with such a text:
  \<^verbatim>\<open>"raise"\<close>, the default, raises, and \<^verbatim>\<open>"coerce"\<close> returns the missing date \<^verbatim>\<open>NaT\<close>.
\<close>

datatype errors_mode = Raise | Coerce

definition to_datetime :: "(string \<Rightarrow> 'd option) \<Rightarrow> string \<Rightarrow> errors_mode \<Rightarrow> py_error + 'd option" where
  "to_datetime parse arg errors =
     (case parse arg of
        Some d \<Rightarrow> Inr (Some d)
      | None \<Rightarrow> (case errors of Raise \<Rightarrow> Inl ParserError | Coerce \<Rightarrow> Inr None))"

definition DateEntry_get_daterange ::
  "(string \<Rightarrow> 'd option) \<Rightarrow> DateEntry \<Rightarrow> py_error + ('d option \<times> 'd option)" where
  "DateEntry_get_daterange parse self =
     (case to_datetime parse (from_var self) Coerce of
        Inl e \<Rightarrow> Inl e
      | Inr from_date \<Rightarrow>
          (case to_datetime parse (to_var self) Coerce of
             Inl e \<Rightarrow> Inl e
           | Inr to_date \<Rightarrow> Inr (from_date, to_date)))"

section \<open>The selector panel: \<^verbatim>\<open>VarSelector\<close>\<close>

record VarSelector =
  condition_selector :: ConditionSelect
  var_window :: VarWindow
  selected_window :: "(string \<times> string) listbox"
  filter_var :: string
  date_entry :: DateEntry

definition VarSelector_add :: "VarSelector \<Rightarrow> VarSelector" where
  "VarSelector_add self =
     (let selected = VarWindow_get_selected (var_window self);
          addlist = map (\<lambda>i. (stringvar (condition_selector self), i)) selected
      in self\<lparr>selected_window := SelectedWindow_add (selected_window self) addlist\<rparr>)"

definition VarSelector_filter_trace :: "VarSelector \<Rightarrow> VarSelector" where
  "VarSelector_filter_trace self =
     (let string = filter_var self
      in self\<lparr>var_window := VarWindow_filter (var_window self) string\<rparr>)"

text \<open>
  A callback that raises leaves the widgets as they were when it raised: the callbacks
  return the panel together with the error, if any.
\<close>

definition VarSelector_condition_trace :: "Catalog \<Rightarrow> VarSelector \<Rightarrow> VarSelector \<times> py_error option" where
  "VarSelector_condition_trace cat self =
     (case ConditionSelect_get_condition cat (condition_selector self) of
        Inl e \<Rightarrow> (self, Some e)
      | Inr c \<Rightarrow> (self\<lparr>var_window := VarWindow_build_box (var_window self) c\<rparr>, None))"

definition ConditionSelect_update_display ::
  "Catalog \<Rightarrow> string \<Rightarrow> VarSelector \<Rightarrow> VarSelector \<times> py_error option" where
  "ConditionSelect_update_display cat nm panel =
     (let panel1 = panel\<lparr>condition_selector := (condition_selector panel)\<lparr>stringvar := nm\<rparr>\<rparr>
      in case tracefunc (condition_selector panel1) of
           None \<Rightarrow> (panel1, None)
         | Some Condition_trace \<Rightarrow> VarSelector_condition_trace cat panel1)"

definition VarSelector_get_selected :: "VarSelector \<Rightarrow> (string \<times> string) list" where
  "VarSelector_get_selected self = SelectedWindow_get_displayed (selected_window self)"

definition VarSelector_get_daterange ::
  "(string \<Rightarrow> 'd option) \<Rightarrow> VarSelector \<Rightarrow> py_error + ('d option \<times> 'd option)" where
  "VarSelector_get_daterange parse self = DateEntry_get_daterange parse (date_entry self)"

definition VarSelector_init :: "Catalog \<Rightarrow> VarSelector" where
  "VarSelector_init cat =
     \<lparr>condition_selector = ConditionSelect_set_tracefunc (ConditionSelect_init cat) Condition_trace,
      var_window = VarWindow_init cat,
      selected_window = [],
      filter_var = [],
      date_entry = \<lparr>from_var = [], to_var = []\<rparr>\<rparr>"

subsection \<open>Events of the panel\<close>

text \<open>
  What the user can do to the panel: choose an entry of the condition menu, type in the
  filter box, change the highlighted rows of either list box, press Add or Remove, type in
  a date box. Highlighting makes the rows at the given indices the highlighted ones.
  The event loop reports a callback's error and goes on with the next event.
\<close>

datatype event =
    Pick string
  | Filter_write string
  | Highlight_items "nat list"
  | Highlight_selected "nat list"
  | Add
  | Remove
  | From_write string
  | To_write string

definition listbox_highlight :: "'a listbox \<Rightarrow> nat list \<Rightarrow> 'a listbox" where
  "listbox_highlight lb sel = map (\<lambda>i. (fst (lb ! i), i \<in> set sel)) [0..<length lb]"

fun step :: "Catalog \<Rightarrow> event \<Rightarrow> VarSelector \<Rightarrow> VarSelector" where
  "step cat (Pick nm) p = fst (ConditionSelect_update_display cat nm p)"
| "step cat (Filter_write s) p = VarSelector_filter_trace (p\<lparr>filter_var := s\<rparr>)"
| "step cat (Highlight_items sel) p =
     p\<lparr>var_window := (var_window p)\<lparr>listbox := listbox_highlight (listbox (var_window p)) sel\<rparr>\<rparr>"
| "step cat (Highlight_selected sel) p =
     p\<lparr>selected_window := listbox_highlight (selected_window p) sel\<rparr>"
| "step cat Add p = VarSelector_add p"
| "step cat Remove p = p\<lparr>selected_window := SelectedWindow_remove (selected_window p)\<rparr>"
| "step cat (From_write s) p = p\<lparr>date_entry := (date_entry p)\<lparr>from_var := s\<rparr>\<rparr>"
| "step cat (To_write s) p = p\<lparr>date_entry := (date_entry p)\<lparr>to_var := s\<rparr>\<rparr>"

definition run :: "Catalog \<Rightarrow> event list \<Rightarrow> VarSelector \<Rightarrow> VarSelector" where
  "run cat es p = fold (step cat) es p"

fun is_display_change :: "event \<Rightarrow> bool" where
  "is_display_change (Pick nm) = True"
| "is_display_change (Filter_write s) = True"
| "is_display_change e = False"

section \<open>The compile and export screen: \<^verbatim>\<open>NumOfCases\<close>\<close>

text \<open>
  The compiled table is opaque. What \<^verbatim>\<open>_open\<close> does to the outside is recorded as the
  sequence of the calls it makes: \<^verbatim>\<open>to_csv\<close> on the table with a path, and
  \<^verbatim>\<open>webbrowser.open\<close> with a path. The count variable starts as \<^verbatim>\<open>nan\<close>, here no number.
\<close>

datatype 'r io_call = To_csv 'r string | Wb_open string

record 'r NumOfCases =
  var_selector :: VarSelector
  num_variable :: "int option"
  compiled_cases :: "'r option"

definition NumOfCases_open :: "'r NumOfCases \<Rightarrow> 'r NumOfCases \<times> 'r io_call list" where
  "NumOfCases_open self =
     (case compiled_cases self of
        None \<Rightarrow> (self, [])
      | Some cases \<Rightarrow> (self, [To_csv cases ''compiled cases.csv'', Wb_open ''compiled cases.csv'']))"

definition NumOfCases_init :: "Catalog \<Rightarrow> 'r NumOfCases" where
  "NumOfCases_init cat =
     \<lparr>var_selector = VarSelector_init cat, num_variable = None, compiled_cases = None\<rparr>"

section \<open>Example data\<close>

text \<open>
  A catalog with the condition of the specification's first scenario and a second one,
  and a catalog whose default condition lists one item name twice.
\<close>

definition diagnosis :: Condition where
  "diagnosis = \<lparr>name = ''Diagnosis'', array = [''flu'', ''cold'', ''covid'']\<rparr>"

definition outcome :: Condition where
  "outcome = \<lparr>name = ''Outcome'', array = [''Recovered'', ''Died'']\<rparr>"

definition scenario_catalog :: Catalog where
  "scenario_catalog =
     \<lparr>condition_list = [diagnosis, outcome],
      condition_dict = [''Diagnosis'' \<mapsto> diagnosis, ''Outcome'' \<mapsto> outcome],
      defaultCondition = diagnosis\<rparr>"

definition repeated :: Condition where
  "repeated = \<lparr>name = ''Diagnosis'', array = [''flu'', ''flu'']\<rparr>"

definition repeated_catalog :: Catalog where
  "repeated_catalog =
     \<lparr>condition_list = [repeated],
      condition_dict = [''Diagnosis'' \<mapsto> repeated],
      defaultCondition = repeated\<rparr>"

section \<open>Facts about the list box loops\<close>

lemma insert_loop_rows:
  "fold (\<lambda>var b. if P var then listbox_insert b (listbox_size b) var else b) vs lb
     = lb @ map (\<lambda>v. (v, False)) (filter P vs)"
  by (induction vs arbitrary: lb) (simp_all add: listbox_insert_def listbox_size_def)

lemma build_loop_rows:
  "n \<le> length varlist \<Longrightarrow>
   fold (\<lambda>i b. listbox_insert b i (varlist ! i)) [0..<n] [] = map (\<lambda>v. (v, False)) (take n varlist)"
proof (induction n)
  case 0
  then show ?case by simp
next
  case (Suc n)
  then have "fold (\<lambda>i b. listbox_insert b i (varlist ! i)) [0..<n] []
      = map (\<lambda>v. (v, False)) (take n varlist)" by simp
  moreover have "take (Suc n) varlist = take n varlist @ [varlist ! n]"
    using Suc.prems by (simp add: take_Suc_conv_app_nth)
  ultimately show ?case
    using Suc.prems by (simp add: listbox_insert_def)
qed

lemma curselection_snoc:
  "listbox_curselection (lb @ [r]) = listbox_curselection lb @ (if snd r then [length lb] else [])"
proof -
  have "[i \<leftarrow> [0..<length lb]. snd ((lb @ [r]) ! i)] = [i \<leftarrow> [0..<length lb]. snd (lb ! i)]"
    by (rule filter_cong) (simp_all add: nth_append)
  then show ?thesis by (simp add: listbox_curselection_def)
qed

lemma curselection_sorted: "sorted (listbox_curselection lb)"
  by (simp add: listbox_curselection_def sorted_wrt_filter)

lemma curselection_distinct: "distinct (listbox_curselection lb)"
  by (simp add: listbox_curselection_def)

lemma curselection_bound: "i \<in> set (listbox_curselection lb) \<Longrightarrow> i < length lb"
  by (simp add: listbox_curselection_def)

lemma remove_index_eq: "remove_index lb = rev (listbox_curselection lb)"
  by (simp add: remove_index_def sorted_sort_id curselection_sorted)

lemma remove_index_desc: "sorted_wrt (>) (remove_index lb)"
  using curselection_sorted [of lb] curselection_distinct [of lb]
  by (simp add: remove_index_eq sorted_wrt_rev strict_sorted_iff)

lemma delete_loop_append:
  "sorted cs \<Longrightarrow> distinct cs \<Longrightarrow> \<forall>i \<in> set cs. i < length xs \<Longrightarrow>
   fold (\<lambda>i b. listbox_delete b i) (rev cs) (xs @ ys)
     = fold (\<lambda>i b. listbox_delete b i) (rev cs) xs @ ys"
proof (induction cs arbitrary: xs rule: rev_induct)
  case Nil
  then show ?case by simp
next
  case (snoc i cs)
  have i: "i < length xs" using snoc.prems by simp
  have lt: "\<forall>j \<in> set cs. j < i"
  proof
    fix j assume j: "j \<in> set cs"
    then have "j \<le> i" using snoc.prems(1) by (simp add: sorted_append)
    moreover have "j \<noteq> i" using j snoc.prems(2) by auto
    ultimately show "j < i" by simp
  qed
  have "\<forall>j \<in> set cs. j < length (listbox_delete xs i)"
    using lt i by (auto simp: listbox_delete_def)
  moreover have "sorted cs" "distinct cs" using snoc.prems by (auto simp: sorted_append)
  ultimately have "fold (\<lambda>i b. listbox_delete b i) (rev cs) (listbox_delete xs i @ ys)
     = fold (\<lambda>i b. listbox_delete b i) (rev cs) (listbox_delete xs i) @ ys"
    using snoc.IH by blast
  moreover have "listbox_delete (xs @ ys) i = listbox_delete xs i @ ys"
    using i by (simp add: listbox_delete_def)
  ultimately show ?case by simp
qed

lemma remove_rows: "SelectedWindow_remove lb = [r \<leftarrow> lb. \<not> snd r]"
proof (induction lb rule: rev_induct)
  case Nil
  then show ?case
    by (simp add: SelectedWindow_remove_def remove_index_eq listbox_curselection_def)
next
  case (snoc r lb)
  let ?del = "\<lambda>i b. listbox_delete b (i::nat)"
  have IH: "fold ?del (rev (listbox_curselection lb)) lb = [r \<leftarrow> lb. \<not> snd r]"
    using snoc.IH by (simp add: SelectedWindow_remove_def remove_index_eq)
  show ?case
  proof (cases "snd r")
    case True
    have "listbox_delete (lb @ [r]) (length lb) = lb" by (simp add: listbox_delete_def)
    then show ?thesis
      using True IH
      by (simp add: SelectedWindow_remove_def remove_index_eq curselection_snoc)
  next
    case False
    have "fold ?del (rev (listbox_curselection lb)) (lb @ [r])
        = fold ?del (rev (listbox_curselection lb)) lb @ [r]"
      by (rule delete_loop_append)
         (simp_all add: curselection_sorted curselection_distinct curselection_bound)
    then show ?thesis
      using False IH
      by (simp add: SelectedWindow_remove_def remove_index_eq curselection_snoc)
  qed
qed

lemma nths_cong_below:
  "(\<And>i. i < length xs \<Longrightarrow> i \<in> A \<longleftrightarrow> i \<in> B) \<Longrightarrow> nths xs A = nths xs B"
proof -
  assume h: "\<And>i. i < length xs \<Longrightarrow> i \<in> A \<longleftrightarrow> i \<in> B"
  have "filter (\<lambda>p. snd p \<in> A) (zip xs [0..<length xs]) = filter (\<lambda>p. snd p \<in> B) (zip xs [0..<length xs])"
    by (rule filter_cong) (auto dest!: set_zip_rightD simp: h)
  then show ?thesis by (simp add: nths_def)
qed

lemma displayed_not_highlighted:
  "map fst [r \<leftarrow> lb. \<not> snd r] = nths (map fst lb) (- set (listbox_curselection lb))"
proof (induction lb rule: rev_induct)
  case Nil
  then show ?case by simp
next
  case (snoc r lb)
  have "nths (map fst lb) (- set (listbox_curselection (lb @ [r])))
      = nths (map fst lb) (- set (listbox_curselection lb))"
    by (rule nths_cong_below) (auto simp: curselection_snoc)
  moreover have "length lb \<in> set (listbox_curselection (lb @ [r])) \<longleftrightarrow> snd r"
    using curselection_bound [of "length lb" lb] by (auto simp: curselection_snoc)
  ultimately show ?case
    using snoc.IH by (simp add: nths_append)
qed

lemma highlight_get_all: "listbox_get_all (listbox_highlight lb sel) = listbox_get_all lb"
proof -
  have "map fst (listbox_highlight lb sel) = map fst (map ((!) lb) [0..<length lb])"
    by (simp add: listbox_highlight_def)
  then show ?thesis by (simp only: map_nth listbox_get_all_def)
qed

section \<open>Facts about strings\<close>

lemma startswith_iff: "startswith xs ys \<longleftrightarrow> (\<exists>q. ys = xs @ q)"
  by (induction xs ys rule: startswith.induct) auto

lemma str_in_iff: "str_in sub s \<longleftrightarrow> (\<exists>p q. s = p @ sub @ q)"
proof (induction s)
  case Nil
  then show ?case by simp
next
  case (Cons y ys)
  show ?case
  proof
    assume "str_in sub (y # ys)"
    then consider "startswith sub (y # ys)" | "str_in sub ys" by auto
    then show "\<exists>p q. y # ys = p @ sub @ q"
    proof cases
      case 1
      then obtain q where "y # ys = sub @ q" by (auto simp: startswith_iff)
      then have "y # ys = [] @ sub @ q" by simp
      then show ?thesis by blast
    next
      case 2
      then obtain p q where "ys = p @ sub @ q" using Cons.IH by blast
      then have "y # ys = (y # p) @ sub @ q" by simp
      then show ?thesis by blast
    qed
  next
    assume "\<exists>p q. y # ys = p @ sub @ q"
    then obtain p q where pq: "y # ys = p @ sub @ q" by blast
    show "str_in sub (y # ys)"
    proof (cases p)
      case Nil
      then have "startswith sub (y # ys)" using pq by (simp add: startswith_iff)
      then show ?thesis by simp
    next
      case (Cons a p')
      then have "ys = p' @ sub @ q" using pq by simp
      then show ?thesis using Cons.IH by auto
    qed
  qed
qed

lemma str_in_Nil: "str_in [] s"
  by (cases s) simp_all

section \<open>Facts about the widgets\<close>

lemma SelectedWindow_add_rows:
  "SelectedWindow_add lb vs
     = lb @ map (\<lambda>v. (v, False)) [v \<leftarrow> vs. v \<notin> set (listbox_get_all lb)]"
  by (simp add: SelectedWindow_add_def insert_loop_rows)

lemma add_keeps_displayed_rows: "take (length lb) (SelectedWindow_add lb varlist) = lb"
  by (simp add: SelectedWindow_add_rows)

lemma add_distinct:
  "distinct (listbox_get_all lb) \<Longrightarrow> distinct vs \<Longrightarrow> distinct (listbox_get_all (SelectedWindow_add lb vs))"
  by (auto simp: SelectedWindow_add_rows listbox_get_all_def comp_def)

lemma build_box_rows:
  "VarWindow_build_box self c = \<lparr>condition = c, listbox = map (\<lambda>v. (v, False)) (array c)\<rparr>"
  by (simp add: VarWindow_build_box_def listbox_delete_all_def build_loop_rows)

lemma filter_rows:
  "VarWindow_filter self s =
     self\<lparr>listbox := map (\<lambda>v. (v, False)) [v \<leftarrow> array (condition self). str_in (lower s) (lower v)]\<rparr>"
  by (simp add: VarWindow_filter_def listbox_delete_all_def insert_loop_rows)

lemma step_tracefunc:
  "tracefunc (condition_selector (step cat e p)) = tracefunc (condition_selector p)"
  by (cases e)
     (simp_all add: ConditionSelect_update_display_def VarSelector_condition_trace_def
        VarSelector_filter_trace_def VarSelector_add_def Let_def
        split: option.splits tracefunc.splits sum.splits)

lemma run_tracefunc:
  "tracefunc (condition_selector (run cat es p)) = tracefunc (condition_selector p)"
  unfolding run_def by (induction es arbitrary: p) (simp_all add: step_tracefunc)

lemma init_tracefunc: "tracefunc (condition_selector (VarSelector_init cat)) = Some Condition_trace"
  by (simp add: VarSelector_init_def ConditionSelect_set_tracefunc_def)

lemma step_Pick:
  "tracefunc (condition_selector p) = Some Condition_trace \<Longrightarrow> condition_dict cat nm = Some c \<Longrightarrow>
   var_window (step cat (Pick nm) p) = VarWindow_build_box (var_window p) c"
  by (simp add: ConditionSelect_update_display_def VarSelector_condition_trace_def
        ConditionSelect_get_condition_def)

lemma step_keeps_display:
  "\<not> is_display_change e \<Longrightarrow>
   listbox_get_all (listbox (var_window (step cat e p))) = listbox_get_all (listbox (var_window p))"
  by (cases e) (simp_all add: VarSelector_add_def highlight_get_all Let_def)

lemma run_keeps_display:
  "\<forall>e \<in> set es. \<not> is_display_change e \<Longrightarrow>
   listbox_get_all (listbox (var_window (run cat es p))) = listbox_get_all (listbox (var_window p))"
  unfolding run_def by (induction es arbitrary: p) (simp_all add: step_keeps_display)

section \<open>The model at work\<close>

text \<open>
  The end-to-end scenarios, evaluated: filtering and adding, a filter text in mixed case,
  removing the first and the last of three entries, and choosing a name the catalog
  does not know.
\<close>

lemma scenario_filter_then_add:
  "listbox_get_all (listbox (var_window
      (run scenario_catalog [Pick ''Diagnosis'', Filter_write ''co''] (VarSelector_init scenario_catalog))))
     = [''cold'', ''covid'']
   \<and> VarSelector_get_selected
      (run scenario_catalog [Pick ''Diagnosis'', Filter_write ''co'', Highlight_items [0, 1], Add]
         (VarSelector_init scenario_catalog))
     = [(''Diagnosis'', ''cold''), (''Diagnosis'', ''covid'')]"
  by code_simp

lemma scenario_filter_ignores_case:
  "listbox_get_all (listbox (VarWindow_filter
      \<lparr>condition = \<lparr>name = ''Ward'', array = [''ICU'', ''Clinic'', ''Lab'']\<rparr>, listbox = []\<rparr> ''Ic''))
     = [''ICU'', ''Clinic'']"
  by code_simp

lemma scenario_remove_first_and_last:
  "SelectedWindow_get_displayed (SelectedWindow_remove
      (listbox_highlight
         [((''Diagnosis'', ''flu''), False), ((''Diagnosis'', ''cold''), False),
          ((''Outcome'', ''Died''), False)] [0, 2]))
     = [(''Diagnosis'', ''cold'')]"
  by code_simp

lemma scenario_pick_unknown_name:
  "ConditionSelect_update_display scenario_catalog ''Ward'' (VarSelector_init scenario_catalog)
     = ((VarSelector_init scenario_catalog)
          \<lparr>condition_selector := \<lparr>stringvar = ''Ward'', tracefunc = Some Condition_trace\<rparr>\<rparr>,
        Some KeyError)"
  by (simp add: ConditionSelect_update_display_def VarSelector_condition_trace_def
        ConditionSelect_get_condition_def VarSelector_init_def ConditionSelect_set_tracefunc_def
        ConditionSelect_init_def scenario_catalog_def)

section \<open>The properties of the specification\<close>

text \<open>
  Claim C2. After \<^verbatim>\<open>build_box(c)\<close>, \<^verbatim>\<open>filter(s)\<close> displays exactly the elements of the
  item array of \<open>c\<close> whose lowercase form contains the lowercase form of \<open>s\<close>, in the
  order of the array.
\<close>

theorem filter_after_build_box:
  "listbox_get_all (listbox (VarWindow_filter (VarWindow_build_box self c) s))
     = [v \<leftarrow> array c. \<exists>p q. lower v = p @ lower s @ q]"
  by (simp add: build_box_rows filter_rows listbox_get_all_def comp_def str_in_iff)

text \<open>
  Claim C3. \<^verbatim>\<open>remove\<close> visits the highlighted indices in strictly descending order, and
  the rows it leaves are exactly the rows that were not highlighted, in their original
  order: the displayed elements are those at the indices outside the selection.
\<close>

theorem remove_deletes_highlighted_rows:
  "sorted_wrt (>) (remove_index lb)
   \<and> SelectedWindow_remove lb = [r \<leftarrow> lb. \<not> snd r]
   \<and> SelectedWindow_get_displayed (SelectedWindow_remove lb)
       = nths (SelectedWindow_get_displayed lb) (- set (listbox_curselection lb))"
  by (simp add: remove_index_desc remove_rows SelectedWindow_get_displayed_def
        listbox_get_all_def displayed_not_highlighted)

text \<open>
  Claim C4. \<^verbatim>\<open>add\<close> on a list that displays one pair, with an input that holds a new
  pair, the displayed pair and the new pair again: the displayed pair stays first and is
  not added again, and the new pair is appended twice, the second time when the list
  already displays it. Given in two calls, the same entries leave the new pair displayed
  once.
\<close>

theorem add_appends_entry_already_present:
  "SelectedWindow_get_displayed
     (SelectedWindow_add [((''Diagnosis'', ''cold''), True)]
        [(''Diagnosis'', ''flu''), (''Diagnosis'', ''cold''), (''Diagnosis'', ''flu'')])
     = [(''Diagnosis'', ''cold''), (''Diagnosis'', ''flu''), (''Diagnosis'', ''flu'')]
   \<and> SelectedWindow_get_displayed
     (SelectedWindow_add
        (SelectedWindow_add [((''Diagnosis'', ''cold''), True)]
           [(''Diagnosis'', ''flu''), (''Diagnosis'', ''cold'')])
        [(''Diagnosis'', ''flu'')])
     = [(''Diagnosis'', ''cold''), (''Diagnosis'', ''flu'')]"
  by (simp add: SelectedWindow_add_def SelectedWindow_get_displayed_def listbox_get_all_def
        listbox_insert_def listbox_size_def)

text \<open>
  Claim C5. \<^verbatim>\<open>filter("")\<close> leaves the item list as \<^verbatim>\<open>build_box\<close> with the condition it
  holds does: it displays the whole item array of that condition.
\<close>

theorem filter_empty_is_build_box:
  "VarWindow_filter self [] = VarWindow_build_box self (condition self)
   \<and> listbox_get_all (listbox (VarWindow_filter self [])) = array (condition self)"
  by (cases self)
     (simp add: build_box_rows filter_rows listbox_get_all_def comp_def lower_def str_in_Nil)

text \<open>
  Claim C8. With no compiled result stored, as in the state \<^verbatim>\<open>__init__\<close> leaves,
  \<^verbatim>\<open>_open\<close> makes no call and changes nothing. With a result stored it writes the result
  with \<^verbatim>\<open>to_csv\<close> to \<^verbatim>\<open>compiled cases.csv\<close>, then opens that path, and changes nothing.
\<close>

theorem open_without_and_with_result:
  "NumOfCases_open (self\<lparr>compiled_cases := None\<rparr>) = (self\<lparr>compiled_cases := None\<rparr>, [])
   \<and> compiled_cases (NumOfCases_init cat :: 'r NumOfCases) = None
   \<and> NumOfCases_open (NumOfCases_init cat :: 'r NumOfCases) = (NumOfCases_init cat, [])
   \<and> NumOfCases_open (self\<lparr>compiled_cases := Some r\<rparr>)
       = (self\<lparr>compiled_cases := Some r\<rparr>,
          [To_csv r ''compiled cases.csv'', Wb_open ''compiled cases.csv''])"
  by (simp add: NumOfCases_open_def NumOfCases_init_def)

text \<open>
  Claim C9. Filtering is not cumulative: after \<^verbatim>\<open>build_box(c)\<close>, \<^verbatim>\<open>filter(s1)\<close> followed
  by \<^verbatim>\<open>filter(s2)\<close> leaves the item list as \<^verbatim>\<open>filter(s2)\<close> alone does.
\<close>

theorem filter_not_cumulative:
  "VarWindow_filter (VarWindow_filter (VarWindow_build_box self c) s1) s2
     = VarWindow_filter (VarWindow_build_box self c) s2"
  by (simp add: build_box_rows filter_rows)

text \<open>
  Claim C10. When no row is highlighted, \<^verbatim>\<open>remove\<close> leaves the list box as it is.
\<close>

theorem remove_nothing_highlighted:
  "listbox_curselection lb = [] \<Longrightarrow> SelectedWindow_remove lb = lb"
  by (simp add: SelectedWindow_remove_def remove_index_def)

theorem remove_nothing_highlighted_witness:
  "listbox_curselection [((''Diagnosis'', ''flu''), False), ((''Diagnosis'', ''cold''), False)] = []
   \<and> SelectedWindow_remove [((''Diagnosis'', ''flu''), False), ((''Diagnosis'', ''cold''), False)]
       = [((''Diagnosis'', ''flu''), False), ((''Diagnosis'', ''cold''), False)]"
proof -
  have h: "listbox_curselection [((''Diagnosis'', ''flu''), False), ((''Diagnosis'', ''cold''), False)] = []"
    by (simp add: listbox_curselection_def upt_rec)
  show ?thesis using h remove_nothing_highlighted [OF h] by simp
qed

text \<open>
  Claim C6. From the initial panel, after any events, choosing a condition of the catalog
  makes the item list display that condition's whole item array, whatever the filter text
  is, and the display stays so through every later event that is neither another choice
  of condition nor a change of the filter text.
\<close>

theorem condition_change_shows_full_array:
  "condition_dict cat nm = Some c \<Longrightarrow> \<forall>e \<in> set es. \<not> is_display_change e \<Longrightarrow>
   listbox_get_all (listbox (var_window (run cat (pre @ Pick nm # es) (VarSelector_init cat))))
     = array c"
proof -
  assume d: "condition_dict cat nm = Some c" and es: "\<forall>e \<in> set es. \<not> is_display_change e"
  let ?p = "run cat pre (VarSelector_init cat)"
  have t: "tracefunc (condition_selector ?p) = Some Condition_trace"
    by (simp add: run_tracefunc init_tracefunc)
  have "run cat (pre @ Pick nm # es) (VarSelector_init cat) = run cat es (step cat (Pick nm) ?p)"
    by (simp add: run_def)
  then have "listbox_get_all (listbox (var_window (run cat (pre @ Pick nm # es) (VarSelector_init cat))))
      = listbox_get_all (listbox (var_window (step cat (Pick nm) ?p)))"
    using es by (simp add: run_keeps_display)
  also have "\<dots> = array c"
    unfolding step_Pick [OF t d] by (simp add: build_box_rows listbox_get_all_def comp_def)
  finally show ?thesis .
qed

theorem condition_change_shows_full_array_witness:
  "condition_dict scenario_catalog ''Outcome'' = Some outcome
   \<and> \<not> is_display_change (Highlight_items [0])
   \<and> \<not> is_display_change Add
   \<and> \<not> is_display_change (To_write ''2021-12-31'')
   \<and> filter_var (run scenario_catalog
        ([Filter_write ''co''] @ Pick ''Outcome'' # [Highlight_items [0], Add, To_write ''2021-12-31''])
        (VarSelector_init scenario_catalog)) = ''co''
   \<and> listbox_get_all (listbox (var_window (run scenario_catalog
        ([Filter_write ''co''] @ Pick ''Outcome'' # [Highlight_items [0], Add, To_write ''2021-12-31''])
        (VarSelector_init scenario_catalog))))
      = [''Recovered'', ''Died'']"
proof -
  have d: "condition_dict scenario_catalog ''Outcome'' = Some outcome"
    by (simp add: scenario_catalog_def)
  have es: "\<forall>e \<in> set [Highlight_items [0], Add, To_write ''2021-12-31'']. \<not> is_display_change e"
    by simp
  have f: "filter_var (run scenario_catalog
        ([Filter_write ''co''] @ Pick ''Outcome'' # [Highlight_items [0], Add, To_write ''2021-12-31''])
        (VarSelector_init scenario_catalog)) = ''co''"
    by (simp add: run_def VarSelector_filter_trace_def VarSelector_add_def
          ConditionSelect_update_display_def VarSelector_condition_trace_def
          VarSelector_init_def ConditionSelect_set_tracefunc_def ConditionSelect_init_def
          ConditionSelect_get_condition_def scenario_catalog_def Let_def)
  show ?thesis
    using d es f condition_change_shows_full_array [OF d es, of "[Filter_write ''co'']"]
    by (simp add: outcome_def)
qed

text \<open>
  Claim C1. One call of \<^verbatim>\<open>add\<close> with a pair twice in its input, on an empty list,
  displays the pair twice; so does the Add button of the panel when the two highlighted
  rows of the item list hold the same item name.
\<close>

theorem add_repeated_pair_displayed_twice:
  "\<not> distinct (SelectedWindow_get_displayed
     (SelectedWindow_add [] [(''Diagnosis'', ''flu''), (''Diagnosis'', ''flu'')]))
   \<and> SelectedWindow_get_displayed
     (SelectedWindow_add [] [(''Diagnosis'', ''flu''), (''Diagnosis'', ''flu'')])
     = [(''Diagnosis'', ''flu''), (''Diagnosis'', ''flu'')]
   \<and> VarSelector_get_selected
       (run repeated_catalog [Highlight_items [0, 1], Add] (VarSelector_init repeated_catalog))
     = [(''Diagnosis'', ''flu''), (''Diagnosis'', ''flu'')]"
  by code_simp

end
